theory Spec2Isabelle
  imports Complex_Main "HOL-Library.Sublist"
begin

section \<open>Conventions of the embedding\<close>

text \<open>
  The credit-risk analyser is Python. Its values are embedded as follows.
  \<^item> A Python \<open>float\<close> is a \<^typ>\<open>real\<close>, the number the double stands for, and
    arithmetic is exact. The code computes in IEEE doubles: a quotient, product or sum is
    rounded, it can overflow to infinity or underflow to zero, and a value can be NaN. None
    of that is in the model, so the value the model computes is not always the value the
    code computes, and with extreme operands the code can raise from its arithmetic where
    the model returns. The properties proved below are therefore about what does not
    depend on the arithmetic: which checks are made and in which order, which exception
    they raise, which branch is taken and which record is built. No property of a computed
    or rounded number is claimed; the concrete runs use inputs on which doubles and reals
    give the same numbers.
  \<^item> A Python \<open>str\<close> is a \<^typ>\<open>string\<close> holding its UTF-8 bytes; the accented letters
    of the Spanish messages are written byte by byte.
  \<^item> An exception is a value of \<open>exception\<close>; a function that may raise returns
    \<open>exception + 'a\<close>, with \<open>Inl\<close> for the raise.
  \<^item> \<open>print\<close> and \<open>warnings.warn\<close> only write to the console and are left out.
\<close>

datatype exception =
    ValueError string
  | ZeroDivisionError string
  | KeyError string
  | TypeError string
  | IndexError string
  | RuntimeError string

text \<open>\<open>str(e)\<close>: the message; for a \<open>KeyError\<close> Python shows the \<open>repr\<close> of the key.\<close>

fun str_exception :: "exception \<Rightarrow> string" where
  "str_exception (ValueError m) = m"
| "str_exception (ZeroDivisionError m) = m"
| "str_exception (KeyError k) = [CHR 0x27] @ k @ [CHR 0x27]"
| "str_exception (TypeError m) = m"
| "str_exception (IndexError m) = m"
| "str_exception (RuntimeError m) = m"

text \<open>Sequencing of calls that may raise: the first exception aborts the rest.\<close>

definition bind_exc :: "exception + 'a \<Rightarrow> ('a \<Rightarrow> exception + 'b) \<Rightarrow> exception + 'b" where
  "bind_exc r f = (case r of Inl e \<Rightarrow> Inl e | Inr v \<Rightarrow> f v)"

text \<open>
  \<open>round(x, ndigits)\<close>, read on the exact value: the nearest multiple of
  \<open>10 ^ -ndigits\<close>, a tie going to the even neighbour. Python rounds the binary double,
  so at and next to a decimal tie the two differ (the quotient of 1 by 20000 is reported
  as 0.0001 by the code and is 0 here).
\<close>

definition round_half_even :: "real \<Rightarrow> int" where
  "round_half_even x =
     (let f = \<lfloor>x\<rfloor>; d = x - of_int f
      in if d < 1 / 2 then f
         else if d > 1 / 2 then f + 1
         else if even f then f else f + 1)"

definition py_round :: "real \<Rightarrow> nat \<Rightarrow> real" where
  "py_round x ndigits = of_int (round_half_even (x * 10 ^ ndigits)) / 10 ^ ndigits"

section \<open>decisions.py\<close>

text \<open>The class constants of \<open>BaseCreditDecision\<close>.\<close>

definition APPROVED :: string where "APPROVED = ''APPROVED''"
definition APPROVED_WARNING :: string where "APPROVED_WARNING = ''APPROVED WITH WARNING''"
definition DENIED :: string where "DENIED = ''DENIED''"

definition ZONE_SAFE :: string where "ZONE_SAFE = ''SAFE''"
definition ZONE_GREY :: string where "ZONE_GREY = ''GREY ZONE''"
definition ZONE_DISTRESS :: string where "ZONE_DISTRESS = ''DISTRESS''"

text \<open>
  The dictionary of \<open>get_summary\<close>. Its third entry, \<open>reasoning\<close>, is a formatted
  rendering of the same numbers and zone for the reader of the report; it decides nothing
  and is not modelled. \<open>get_summary\<close> raises only while \<open>decision\<close> is still empty, which
  cannot be after \<open>evaluate\<close> has set it.
\<close>

record zone_decision =
  zd_zone :: string
  zd_decision :: string

record thresholds =
  safe :: real
  distress :: real

definition THRESHOLDS :: "string \<rightharpoonup> thresholds" where
  "THRESHOLDS =
     [''Z'' \<mapsto> \<lparr>safe = 2.99, distress = 1.81\<rparr>,
      ''Z_double_prime'' \<mapsto> \<lparr>safe = 2.60, distress = 1.10\<rparr>]"

record ZScoreDecision =
  zsd_z_score :: real
  zsd_model_version :: string

definition ZScoreDecision_init :: "real \<Rightarrow> string \<Rightarrow> ZScoreDecision" where
  "ZScoreDecision_init z_score model_version =
     \<lparr>zsd_z_score = z_score, zsd_model_version = model_version\<rparr>"

text \<open>\<open>THRESHOLDS.get(model_version, THRESHOLDS["Z_double_prime"])\<close>\<close>

definition ZScoreDecision_thresholds :: "ZScoreDecision \<Rightarrow> thresholds" where
  "ZScoreDecision_thresholds self =
     (case THRESHOLDS (zsd_model_version self) of
        Some t \<Rightarrow> t
      | None \<Rightarrow> \<lparr>safe = 2.60, distress = 1.10\<rparr>)"

definition ZScoreDecision_evaluate :: "ZScoreDecision \<Rightarrow> zone_decision" where
  "ZScoreDecision_evaluate self =
     (let t = ZScoreDecision_thresholds self
      in if zsd_z_score self > safe t then
           \<lparr>zd_zone = ZONE_SAFE, zd_decision = APPROVED\<rparr>
         else if zsd_z_score self < distress t then
           \<lparr>zd_zone = ZONE_DISTRESS, zd_decision = DENIED\<rparr>
         else
           \<lparr>zd_zone = ZONE_GREY, zd_decision = APPROVED_WARNING\<rparr>)"

definition PD_SAFE :: real where "PD_SAFE = 0.02"
definition PD_DISTRESS :: real where "PD_DISTRESS = 0.05"

record MertonDecision =
  md_PD :: real
  md_DD :: real

definition MertonDecision_init :: "real \<Rightarrow> real \<Rightarrow> MertonDecision" where
  "MertonDecision_init PD DD = \<lparr>md_PD = PD, md_DD = DD\<rparr>"

definition MertonDecision_evaluate :: "MertonDecision \<Rightarrow> zone_decision" where
  "MertonDecision_evaluate self =
     (if md_PD self < PD_SAFE then
        \<lparr>zd_zone = ZONE_SAFE, zd_decision = APPROVED\<rparr>
      else if md_PD self > PD_DISTRESS then
        \<lparr>zd_zone = ZONE_DISTRESS, zd_decision = DENIED\<rparr>
      else
        \<lparr>zd_zone = ZONE_GREY, zd_decision = APPROVED_WARNING\<rparr>)"

text \<open>
  The map from zone to decision as the specification words it (SAFE to APPROVED, GREY ZONE
  to APPROVED WITH WARNING, DISTRESS to DENIED), to compare the two engines against.
\<close>

definition decision_of_zone :: "string \<Rightarrow> string" where
  "decision_of_zone z =
     (if z = ZONE_SAFE then APPROVED else if z = ZONE_GREY then APPROVED_WARNING else DENIED)"

section \<open>risk\_analyzer.py: the reconciler\<close>

record final_decision =
  fd_decision :: string
  fd_basis :: string

text \<open>
  \<open>_combine_decisions(z_dec, merton_dec)\<close>; \<open>merton_dec is None\<close> is the \<open>None\<close> of the
  option. The two decisions are collected in a set, as in the source.
\<close>

definition combine_decisions :: "zone_decision \<Rightarrow> zone_decision option \<Rightarrow> final_decision" where
  "combine_decisions z_dec merton_dec =
     (case merton_dec of
        None \<Rightarrow>
          \<lparr>fd_decision = zd_decision z_dec,
           fd_basis = ''Z-Score '' @ [CHR 0xC3, CHR 0xBA] @ ''nicamente (Merton no aplicable)''\<rparr>
      | Some m_dec \<Rightarrow>
          (let decisions = {zd_decision z_dec, zd_decision m_dec};
               final = (if ''DENIED'' \<in> decisions then ''DENIED''
                        else if decisions = {''APPROVED''} then ''APPROVED''
                        else ''APPROVED WITH WARNING'')
           in \<lparr>fd_decision = final,
               fd_basis = ''Z-Score: '' @ zd_decision z_dec @ '' | Merton: '' @ zd_decision m_dec\<rparr>))"

section \<open>calculators.py\<close>

text \<open>
  The \<open>data\<close> dictionary of the Z-Score calculator, as \<open>fetch_all\<close> hands it over: all
  seven entries are floats by then.
\<close>

record FinancialFacts =
  working_capital :: real
  total_assets :: real
  retained_earnings :: real
  ebit :: real
  market_cap :: real
  total_liabilities :: real
  sales :: real

record coefficients =
  c_x1 :: real
  c_x2 :: real
  c_x3 :: real
  c_x4 :: real
  c_x5 :: real

definition COEFFICIENTS :: "string \<rightharpoonup> coefficients" where
  "COEFFICIENTS =
     [''Z'' \<mapsto> \<lparr>c_x1 = 1.2, c_x2 = 1.4, c_x3 = 3.3, c_x4 = 0.6, c_x5 = 1.0\<rparr>,
      ''Z_double_prime'' \<mapsto> \<lparr>c_x1 = 6.56, c_x2 = 3.26, c_x3 = 6.72, c_x4 = 1.05, c_x5 = 0.0\<rparr>]"

text \<open>
  The calculator object after \<open>__init__\<close>. Its attributes \<open>x1 .. x5\<close>, \<open>z_score\<close> and
  \<open>result\<close> are written by \<open>calculate\<close> and read by nothing but the dictionary that
  \<open>calculate\<close> returns, so the model returns that dictionary.
\<close>

record ZScoreCalculator =
  zc_data :: FinancialFacts
  zc_model_version :: string
  zc_coefficients :: coefficients

definition ZScoreCalculator_init :: "FinancialFacts \<Rightarrow> string \<Rightarrow> exception + ZScoreCalculator" where
  "ZScoreCalculator_init data model_version =
     (case COEFFICIENTS model_version of
        None \<Rightarrow>
          Inl (ValueError (''Versi'' @ [CHR 0xC3, CHR 0xB3] @ ''n inv'' @ [CHR 0xC3, CHR 0xA1] @
                 ''lida: '' @ [CHR 0x27] @ model_version @ [CHR 0x27] @ ''.''))
      | Some c \<Rightarrow>
          Inr \<lparr>zc_data = data, zc_model_version = model_version, zc_coefficients = c\<rparr>)"

record zscore_result =
  zr_model_version :: string
  zr_x1 :: real
  zr_x2 :: real
  zr_x3 :: real
  zr_x4 :: real
  zr_x5 :: real
  zr_z_score :: real

definition ZScoreCalculator_calculate :: "ZScoreCalculator \<Rightarrow> exception + zscore_result" where
  "ZScoreCalculator_calculate self =
     (let ta = total_assets (zc_data self);
          tlb = total_liabilities (zc_data self)
      in if ta = 0 then Inl (ZeroDivisionError ''Total Assets es 0.'')
         else if tlb = 0 then Inl (ZeroDivisionError ''Total Liabilities es 0.'')
         else
           (let x1 = working_capital (zc_data self) / ta;
                x2 = retained_earnings (zc_data self) / ta;
                x3 = ebit (zc_data self) / ta;
                x4 = market_cap (zc_data self) / tlb;
                x5 = (if zc_model_version self = ''Z'' then sales (zc_data self) / ta else 0);
                c = zc_coefficients self;
                z_score = c_x1 c * x1 + c_x2 c * x2 + c_x3 c * x3 + c_x4 c * x4 + c_x5 c * x5
            in Inr \<lparr>zr_model_version = zc_model_version self,
                     zr_x1 = py_round x1 4, zr_x2 = py_round x2 4, zr_x3 = py_round x3 4,
                     zr_x4 = py_round x4 4, zr_x5 = py_round x5 4,
                     zr_z_score = py_round z_score 4\<rparr>))"

text \<open>
  The functions of the \<open>math\<close> module and the float division that can raise. \<open>math.erf\<close>
  is a function of the platform's C library, not of this program: the Merton calculator
  takes it as the parameter \<open>erf\<close>.
\<close>

definition math_log :: "real \<Rightarrow> exception + real" where
  "math_log x = (if x \<le> 0 then Inl (ValueError ''math domain error'') else Inr (ln x))"

definition math_sqrt :: "real \<Rightarrow> exception + real" where
  "math_sqrt x = (if x < 0 then Inl (ValueError ''math domain error'') else Inr (sqrt x))"

definition truediv :: "real \<Rightarrow> real \<Rightarrow> exception + real" where
  "truediv a b = (if b = 0 then Inl (ZeroDivisionError ''float division by zero'') else Inr (a / b))"

record merton_data =
  m_V_A :: real
  m_D :: real
  m_mu :: real
  m_sigma :: real
  m_risk_free_rate :: real
  m_T :: real

record merton_result =
  mr_V_A :: real
  mr_D :: real
  mr_mu :: real
  mr_sigma :: real
  mr_T :: real
  mr_DD :: real
  mr_PD :: real
  mr_PD_pct :: real

definition normal_cdf :: "(real \<Rightarrow> real) \<Rightarrow> real \<Rightarrow> real" where
  "normal_cdf erf x = (1 + erf (x / sqrt 2)) / 2"

text \<open>
  \<open>MertonCalculator.calculate\<close>. The three checks come first, in the order of the source.
  The operands of the quotient are then evaluated left to right: the logarithm, the square
  root, the division. In exact arithmetic the logarithm cannot fail after the checks and
  the division fails at T = 0 only; in doubles \<open>V_A / D\<close> can underflow to zero (the
  logarithm then raises), \<open>sigma ** 2\<close> can overflow (Python raises \<open>OverflowError\<close>) and
  \<open>sigma * sqrt(T)\<close> can underflow to zero (the division then raises). These raises are
  not in the model: of the part after the checks it shows the order of evaluation, and
  nothing is proved from it about when the code returns.
\<close>

definition MertonCalculator_calculate :: "(real \<Rightarrow> real) \<Rightarrow> merton_data \<Rightarrow> exception + merton_result" where
  "MertonCalculator_calculate erf data =
     (let V_A = m_V_A data; D = m_D data; mu = m_mu data; sigma = m_sigma data; T = m_T data
      in if D \<le> 0 then Inl (ValueError ''D (pasivos) debe ser mayor que 0.'')
         else if V_A \<le> 0 then Inl (ValueError ''V_A (activos) debe ser mayor que 0.'')
         else if sigma \<le> 0 then
           Inl (ValueError ([CHR 0xCF, CHR 0x83] @ '' debe ser mayor que 0.''))
         else
           bind_exc (math_log (V_A / D)) (\<lambda>l.
           bind_exc (math_sqrt T) (\<lambda>s.
           bind_exc (truediv (l + (mu - sigma ^ 2 / 2) * T) (sigma * s)) (\<lambda>DD.
             (let PD = 1 - normal_cdf erf DD
              in Inr \<lparr>mr_V_A = py_round V_A 2, mr_D = py_round D 2,
                       mr_mu = py_round mu 4, mr_sigma = py_round sigma 4,
                       mr_T = T, mr_DD = py_round DD 4,
                       mr_PD = py_round PD 6, mr_PD_pct = py_round (PD * 100) 4\<rparr>)))))"

section \<open>classifier.py\<close>

definition MANUFACTURING_KEYWORDS :: "string list" where
  "MANUFACTURING_KEYWORDS =
     [''manufactur'', ''auto'', ''aerospace'', ''defense'', ''steel'', ''chemical'',
      ''semiconductor'', ''electronic'', ''machinery'', ''equipment'', ''textile'',
      ''paper'', ''packaging'', ''rubber'', ''plastic'', ''metal'', ''mining'',
      ''oil'', ''gas'', ''energy'', ''pharmaceutical'', ''drug'', ''food'', ''beverage'',
      ''tobacco'', ''furniture'', ''appliance'', ''vehicle'', ''aircraft'', ''ship'']"

definition FINANCIAL_KEYWORDS :: "string list" where
  "FINANCIAL_KEYWORDS =
     [''bank'', ''insurance'', ''financial'', ''asset management'', ''investment'',
      ''credit'', ''mortgage'', ''reit'', ''fund'', ''brokerage'', ''capital markets'']"

text \<open>
  \<open>str.lower()\<close> and \<open>str.upper()\<close> on the ASCII letters. The case mapping of letters
  beyond ASCII is outside the model: their bytes are kept.
\<close>

definition ascii_uppercase :: string where
  "ascii_uppercase = ''ABCDEFGHIJKLMNOPQRSTUVWXYZ''"

definition ascii_lowercase :: string where
  "ascii_lowercase = ''abcdefghijklmnopqrstuvwxyz''"

definition lower_char :: "char \<Rightarrow> char" where
  "lower_char c =
     (case map_of (zip ascii_uppercase ascii_lowercase) c of None \<Rightarrow> c | Some l \<Rightarrow> l)"

definition upper_char :: "char \<Rightarrow> char" where
  "upper_char c =
     (case map_of (zip ascii_lowercase ascii_uppercase) c of None \<Rightarrow> c | Some u \<Rightarrow> u)"

definition lower :: "string \<Rightarrow> string" where
  "lower s = map lower_char s"

definition upper :: "string \<Rightarrow> string" where
  "upper s = map upper_char s"

text \<open>\<open>kw in s\<close> on strings is \<^const>\<open>sublist\<close>: \<open>kw\<close> occurs in \<open>s\<close> as a contiguous run.\<close>

record CompanyClassifier =
  cc_industry :: string
  cc_total_liabilities :: real
  cc_company_type :: string
  cc_model_version :: string

text \<open>\<open>industry\<close> may be \<open>None\<close>: \<open>(industry or "")\<close>.\<close>

definition CompanyClassifier_init :: "string option \<Rightarrow> real \<Rightarrow> CompanyClassifier" where
  "CompanyClassifier_init industry liabilities =
     \<lparr>cc_industry = lower (case industry of None \<Rightarrow> [] | Some i \<Rightarrow> i),
      cc_total_liabilities = liabilities,
      cc_company_type = [],
      cc_model_version = []\<rparr>"

definition is_manufacturing :: "CompanyClassifier \<Rightarrow> bool" where
  "is_manufacturing self = list_ex (\<lambda>kw. sublist kw (cc_industry self)) MANUFACTURING_KEYWORDS"

definition is_financial :: "CompanyClassifier \<Rightarrow> bool" where
  "is_financial self = list_ex (\<lambda>kw. sublist kw (cc_industry self)) FINANCIAL_KEYWORDS"

text \<open>\<open>classify\<close> writes two attributes and returns the company type: the object is returned updated.\<close>

definition CompanyClassifier_classify :: "CompanyClassifier \<Rightarrow> string \<times> CompanyClassifier" where
  "CompanyClassifier_classify self =
     (let self' =
        (if cc_industry self = [] then
           self\<lparr>cc_company_type := ''non_manufacturing'', cc_model_version := ''Z_double_prime''\<rparr>
         else if is_financial self then
           self\<lparr>cc_company_type := ''financial'', cc_model_version := ''Z_double_prime''\<rparr>
         else if is_manufacturing self then
           self\<lparr>cc_company_type := ''manufacturing'', cc_model_version := ''Z''\<rparr>
         else
           self\<lparr>cc_company_type := ''non_manufacturing'', cc_model_version := ''Z_double_prime''\<rparr>)
      in (cc_company_type self', self'))"

definition get_model_version :: "CompanyClassifier \<Rightarrow> string" where
  "get_model_version self = cc_model_version self"

definition get_merton_applicability :: "CompanyClassifier \<Rightarrow> bool" where
  "get_merton_applicability self = (if cc_total_liabilities self \<le> 0 then False else True)"

section \<open>The market-data provider\<close>

text \<open>
  \<open>yfinance\<close> is outside the program. What the fetchers read from it is a parameter of the
  model: a function \<open>yf\<close> from ticker symbols to \<open>stock\<close> values, standing for
  \<open>yf.Ticker\<close>. The \<open>info\<close> dictionary is a record of the entries that are read, \<open>None\<close>
  for an absent entry. A statement (a pandas \<open>DataFrame\<close>) is its row labels and its
  columns, each column a date and the cell of every row. A cell is a real number: a NaN
  cell, pandas' mark for a value missing inside a row that is present, cannot be written
  down here, and \<open>dropna()\<close> keeps every cell. The fetchers never look at the value of a
  cell before they store it (\<open>float(nan)\<close> is \<open>nan\<close>, which is not \<open>None\<close>), so whether
  they raise or return is decided by the row labels and the \<open>info\<close> entries alone.
\<close>

record ticker_info =
  info_longName :: "string option"
  info_industry :: "string option"
  info_marketCap :: "real option"
  info_sic :: "int option"
  info_regularMarketPrice :: "real option"
  info_previousClose :: "real option"

record frame =
  df_index :: "string list"
  df_columns :: "(int \<times> (string \<Rightarrow> real)) list"

record stock =
  st_info :: ticker_info
  st_balance_sheet :: "frame option"
  st_income_stmt :: "frame option"

text \<open>
  \<open>df is None or df.empty\<close> followed by \<open>df.iloc[:, 0]\<close>: the first column with the row
  labels, or \<open>None\<close> when the frame is \<open>None\<close> or has no row or no column.
\<close>

definition first_column :: "frame option \<Rightarrow> (string list \<times> (string \<Rightarrow> real)) option" where
  "first_column df =
     (case df of
        None \<Rightarrow> None
      | Some f \<Rightarrow>
          (case df_columns f of
             [] \<Rightarrow> None
           | c # _ \<Rightarrow> if df_index f = [] then None else Some (df_index f, snd c)))"

text \<open>\<open>label in latest.index\<close> and \<open>latest[label]\<close>, which raises \<open>KeyError\<close> on a missing label.\<close>

definition has_label :: "string list \<times> (string \<Rightarrow> real) \<Rightarrow> string \<Rightarrow> bool" where
  "has_label latest label = (label \<in> set (fst latest))"

definition get_label :: "string list \<times> (string \<Rightarrow> real) \<Rightarrow> string \<Rightarrow> exception + real" where
  "get_label latest label =
     (if label \<in> set (fst latest) then Inr (snd latest label) else Inl (KeyError label))"

text \<open>
  \<open>df.loc[label].dropna().sort_index().values\<close>: the cells of one row, oldest date first;
  \<open>KeyError\<close> on a missing label.
\<close>

definition row_values :: "frame \<Rightarrow> string \<Rightarrow> exception + real list" where
  "row_values f label =
     (if label \<in> set (df_index f)
      then Inr (map snd (sort_key fst (map (\<lambda>c. (fst c, snd c label)) (df_columns f))))
      else Inl (KeyError label))"

section \<open>base\_fetcher.py\<close>

text \<open>\<open>str.strip()\<close> removes the ASCII whitespace at both ends.\<close>

definition is_space :: "char \<Rightarrow> bool" where
  "is_space c =
     (c \<in> set [CHR 0x20, CHR 0x09, CHR 0x0A, CHR 0x0B, CHR 0x0C, CHR 0x0D,
                CHR 0x1C, CHR 0x1D, CHR 0x1E, CHR 0x1F])"

definition strip :: "string \<Rightarrow> string" where
  "strip s = rev (dropWhile is_space (rev (dropWhile is_space s)))"

text \<open>\<open>repr\<close> of a list of strings, as an f-string shows it: \<open>['a', 'b']\<close>.\<close>

fun join_reprs :: "string list \<Rightarrow> string" where
  "join_reprs [] = []"
| "join_reprs [x] = [CHR 0x27] @ x @ [CHR 0x27]"
| "join_reprs (x # y # ys) = [CHR 0x27] @ x @ [CHR 0x27] @ '', '' @ join_reprs (y # ys)"

definition repr_list :: "string list \<Rightarrow> string" where
  "repr_list xs = ''['' @ join_reprs xs @ '']''"

text \<open>
  \<open>_validate_data(data, required_fields)\<close>. The dictionary is an association list;
  \<open>data.get(f) is None\<close> holds for an absent key and for a key bound to \<open>None\<close>.
\<close>

definition validate_data :: "string \<Rightarrow> (string \<times> real option) list \<Rightarrow> string list \<Rightarrow> exception + unit" where
  "validate_data ticker data required_fields =
     (let missing = filter (\<lambda>f. (case map_of data f of None \<Rightarrow> True | Some v \<Rightarrow> v = None))
                      required_fields
      in if missing \<noteq> [] then
           Inl (ValueError (''['' @ ticker @ ''] Campos faltantes: '' @ repr_list missing @
                  ''. Verifique que el ticker sea correcto y tenga estados financieros disponibles.''))
         else Inr ())"

section \<open>zscore\_fetcher.py\<close>

definition REQUIRED_FIELDS :: "string list" where
  "REQUIRED_FIELDS = [''total_assets'', ''ebit'', ''market_cap'', ''total_liabilities'', ''sales'']"

text \<open>The fetcher object. The attributes that \<open>__init__\<close> sets to \<open>None\<close> are options.\<close>

record ZScoreDataFetcher =
  zf_ticker :: string
  zf_company_name :: string
  zf_sic_code :: int
  zf_industry :: string
  zf_working_capital :: real
  zf_total_assets :: "real option"
  zf_retained_earnings :: real
  zf_ebit :: "real option"
  zf_market_cap :: "real option"
  zf_total_liabilities :: "real option"
  zf_sales :: "real option"

definition ZScoreDataFetcher_init :: "string \<Rightarrow> ZScoreDataFetcher" where
  "ZScoreDataFetcher_init ticker =
     \<lparr>zf_ticker = strip (upper ticker), zf_company_name = [], zf_sic_code = - 1,
      zf_industry = [], zf_working_capital = 0, zf_total_assets = None,
      zf_retained_earnings = 0, zf_ebit = None, zf_market_cap = None,
      zf_total_liabilities = None, zf_sales = None\<rparr>"

definition zf_fetch_company_info :: "ZScoreDataFetcher \<Rightarrow> stock \<Rightarrow> ZScoreDataFetcher" where
  "zf_fetch_company_info self stk =
     self\<lparr>zf_company_name :=
            (case info_longName (st_info stk) of None \<Rightarrow> zf_ticker self | Some n \<Rightarrow> n),
          zf_industry := (case info_industry (st_info stk) of None \<Rightarrow> [] | Some i \<Rightarrow> i)\<rparr>"

definition zf_fetch_balance_sheet :: "ZScoreDataFetcher \<Rightarrow> stock \<Rightarrow> exception + ZScoreDataFetcher" where
  "zf_fetch_balance_sheet self stk =
     (case first_column (st_balance_sheet stk) of
        None \<Rightarrow>
          Inl (ValueError (''['' @ zf_ticker self @ ''] No se encontr'' @ [CHR 0xC3, CHR 0xB3] @
                 '' balance sheet.''))
      | Some latest \<Rightarrow>
          bind_exc (get_label latest ''Total Assets'') (\<lambda>ta.
          bind_exc (get_label latest ''Total Liabilities Net Minority Interest'') (\<lambda>liab.
            (let wc =
                   (if has_label latest ''Working Capital'' then snd latest ''Working Capital''
                    else if has_label latest ''Current Assets'' \<and>
                            has_label latest ''Current Liabilities''
                         then snd latest ''Current Assets'' - snd latest ''Current Liabilities''
                    else 0);
                 re =
                   (if has_label latest ''Retained Earnings'' then snd latest ''Retained Earnings''
                    else 0)
             in Inr (self\<lparr>zf_total_assets := Some ta, zf_total_liabilities := Some liab,
                           zf_working_capital := wc, zf_retained_earnings := re\<rparr>)))))"

definition zf_fetch_income_statement :: "ZScoreDataFetcher \<Rightarrow> stock \<Rightarrow> exception + ZScoreDataFetcher" where
  "zf_fetch_income_statement self stk =
     (case first_column (st_income_stmt stk) of
        None \<Rightarrow>
          Inl (ValueError (''['' @ zf_ticker self @ ''] No se encontr'' @ [CHR 0xC3, CHR 0xB3] @
                 '' income statement.''))
      | Some latest \<Rightarrow>
          bind_exc
            (if has_label latest ''EBIT'' then Inr (snd latest ''EBIT'')
             else if has_label latest ''Operating Income'' then Inr (snd latest ''Operating Income'')
             else if has_label latest ''Pretax Income'' then Inr (snd latest ''Pretax Income'')
             else Inl (ValueError (''['' @ zf_ticker self @ ''] No se encontr'' @
                         [CHR 0xC3, CHR 0xB3] @ '' EBIT ni alternativa v'' @
                         [CHR 0xC3, CHR 0xA1] @ ''lida.'')))
            (\<lambda>e.
          bind_exc
            (if has_label latest ''Total Revenue'' then Inr (snd latest ''Total Revenue'')
             else if has_label latest ''Operating Revenue'' then Inr (snd latest ''Operating Revenue'')
             else Inl (ValueError (''['' @ zf_ticker self @ ''] No se encontr'' @
                         [CHR 0xC3, CHR 0xB3] @ '' Total Revenue.'')))
            (\<lambda>sa. Inr (self\<lparr>zf_ebit := Some e, zf_sales := Some sa\<rparr>))))"

text \<open>\<open>float(info.get("marketCap"))\<close>: \<open>float(None)\<close> raises \<open>TypeError\<close>.\<close>

definition zf_fetch_market_data :: "ZScoreDataFetcher \<Rightarrow> stock \<Rightarrow> exception + ZScoreDataFetcher" where
  "zf_fetch_market_data self stk =
     (case info_marketCap (st_info stk) of
        None \<Rightarrow>
          Inl (TypeError (''float() argument must be a string or a real number, not '' @
                 [CHR 0x27] @ ''NoneType'' @ [CHR 0x27]))
      | Some mc \<Rightarrow> Inr (self\<lparr>zf_market_cap := Some mc\<rparr>))"

text \<open>
  \<open>fetch_all\<close> returns the dictionary and leaves the fetcher updated (the orchestrator reads
  \<open>company_name\<close> and \<open>industry\<close> from it). The five entries that \<open>_validate_data\<close> has
  just found present are read with \<^const>\<open>the\<close>.
\<close>

definition ZScoreDataFetcher_fetch_all ::
    "(string \<Rightarrow> stock) \<Rightarrow> ZScoreDataFetcher \<Rightarrow> exception + (FinancialFacts \<times> ZScoreDataFetcher)" where
  "ZScoreDataFetcher_fetch_all yf self =
     (let stk = yf (zf_ticker self)
      in bind_exc (zf_fetch_balance_sheet (zf_fetch_company_info self stk) stk) (\<lambda>s1.
         bind_exc (zf_fetch_income_statement s1 stk) (\<lambda>s2.
         bind_exc (zf_fetch_market_data s2 stk) (\<lambda>s3.
           (let data = [(''working_capital'', Some (zf_working_capital s3)),
                        (''total_assets'', zf_total_assets s3),
                        (''retained_earnings'', Some (zf_retained_earnings s3)),
                        (''ebit'', zf_ebit s3),
                        (''market_cap'', zf_market_cap s3),
                        (''total_liabilities'', zf_total_liabilities s3),
                        (''sales'', zf_sales s3)]
            in bind_exc (validate_data (zf_ticker s3) data REQUIRED_FIELDS) (\<lambda>_.
                 Inr (\<lparr>working_capital = zf_working_capital s3,
                       total_assets = the (zf_total_assets s3),
                       retained_earnings = zf_retained_earnings s3,
                       ebit = the (zf_ebit s3),
                       market_cap = the (zf_market_cap s3),
                       total_liabilities = the (zf_total_liabilities s3),
                       sales = the (zf_sales s3)\<rparr>, s3)))))))"

section \<open>merton\_fetcher.py\<close>

definition MIN_YEARS_WARNING :: nat where "MIN_YEARS_WARNING = 3"
definition MIN_YEARS_ERROR :: nat where "MIN_YEARS_ERROR = 2"

record MertonDataFetcher =
  mf_ticker :: string
  mf_company_name :: string
  mf_sic_code :: int
  mf_V_A :: real
  mf_D :: real
  mf_mu :: real
  mf_sigma :: real
  mf_risk_free_rate :: real
  mf_T :: real
  mf_n_years_used :: nat
  mf_assets_history :: "real list"

definition MertonDataFetcher_init :: "string \<Rightarrow> MertonDataFetcher" where
  "MertonDataFetcher_init ticker =
     \<lparr>mf_ticker = strip (upper ticker), mf_company_name = [], mf_sic_code = - 1,
      mf_V_A = 0, mf_D = 0, mf_mu = 0, mf_sigma = 0, mf_risk_free_rate = 0, mf_T = 1,
      mf_n_years_used = 0, mf_assets_history = []\<rparr>"

text \<open>\<open>int(info.get("sic", -1)) if info.get("sic") else -1\<close>: an absent or zero code gives -1.\<close>

definition mf_fetch_company_info :: "MertonDataFetcher \<Rightarrow> stock \<Rightarrow> MertonDataFetcher" where
  "mf_fetch_company_info self stk =
     self\<lparr>mf_company_name :=
            (case info_longName (st_info stk) of None \<Rightarrow> mf_ticker self | Some n \<Rightarrow> n),
          mf_sic_code :=
            (case info_sic (st_info stk) of None \<Rightarrow> - 1 | Some c \<Rightarrow> if c = 0 then - 1 else c)\<rparr>"

text \<open>Decimal digits of a natural number, for the f-strings that show one.\<close>

fun str_nat :: "nat \<Rightarrow> string" where
  "str_nat n =
     (if n < 10 then [''0123456789'' ! n]
      else str_nat (n div 10) @ [''0123456789'' ! (n mod 10)])"

declare str_nat.simps [simp del]

text \<open>\<open>xs[-1]\<close>: the last element, \<open>IndexError\<close> on an empty sequence.\<close>

definition last_item :: "string \<Rightarrow> real list \<Rightarrow> exception + real" where
  "last_item msg xs = (if xs = [] then Inl (IndexError msg) else Inr (last xs))"

definition mf_fetch_historical_balance :: "MertonDataFetcher \<Rightarrow> stock \<Rightarrow> exception + MertonDataFetcher" where
  "mf_fetch_historical_balance self stk =
     (case st_balance_sheet stk of
        None \<Rightarrow>
          Inl (ValueError (''['' @ mf_ticker self @ ''] No se encontr'' @ [CHR 0xC3, CHR 0xB3] @
                 '' balance sheet.''))
      | Some bs \<Rightarrow>
          if df_index bs = [] \<or> df_columns bs = [] then
            Inl (ValueError (''['' @ mf_ticker self @ ''] No se encontr'' @ [CHR 0xC3, CHR 0xB3] @
                   '' balance sheet.''))
          else
            bind_exc (row_values bs ''Total Assets'') (\<lambda>assets.
            bind_exc (row_values bs ''Total Liabilities Net Minority Interest'') (\<lambda>liabs.
              (let n = length assets
               in if n < MIN_YEARS_ERROR then
                    Inl (ValueError (''['' @ mf_ticker self @ ''] Solo '' @ str_nat n @ '' a'' @
                           [CHR 0xC3, CHR 0xB1] @ ''os disponibles. M'' @ [CHR 0xC3, CHR 0xAD] @
                           ''nimo requerido: '' @ str_nat MIN_YEARS_ERROR @ ''.''))
                  else
                    bind_exc (last_item ''list index out of range'' assets) (\<lambda>v_a.
                    bind_exc (last_item ''index -1 is out of bounds for axis 0 with size 0'' liabs)
                      (\<lambda>d.
                      Inr (self\<lparr>mf_assets_history := assets, mf_n_years_used := n,
                                 mf_V_A := v_a, mf_D := d\<rparr>)))))))"

text \<open>The loop of \<open>_calculate_mu_and_sigma\<close> over consecutive years, skipping a zero base.\<close>

fun pct_changes :: "real list \<Rightarrow> real list" where
  "pct_changes (v_prev # v_curr # assets) =
     (if v_prev = 0 then pct_changes (v_curr # assets)
      else ((v_curr - v_prev) / \<bar>v_prev\<bar>) # pct_changes (v_curr # assets))"
| "pct_changes [x] = []"
| "pct_changes [] = []"

text \<open>\<open>np.mean\<close> and \<open>np.std(ddof=1)\<close>; both are called on non-empty lists only.\<close>

definition np_mean :: "real list \<Rightarrow> real" where
  "np_mean xs = sum_list xs / real (length xs)"

definition np_std_ddof1 :: "real list \<Rightarrow> real" where
  "np_std_ddof1 xs =
     sqrt (sum_list (map (\<lambda>x. \<bar>x - np_mean xs\<bar> ^ 2) xs) / (real (length xs) - 1))"

definition mf_calculate_mu_and_sigma :: "MertonDataFetcher \<Rightarrow> exception + MertonDataFetcher" where
  "mf_calculate_mu_and_sigma self =
     (let changes = pct_changes (mf_assets_history self)
      in if length changes < 1 then
           Inl (ValueError (''No hay suficientes variaciones para calcular '' @
                  [CHR 0xCE, CHR 0xBC] @ '' y '' @ [CHR 0xCF, CHR 0x83] @ ''.''))
         else
           Inr (self\<lparr>mf_mu := np_mean changes,
                      mf_sigma := (if length changes > 1 then np_std_ddof1 changes
                                   else \<bar>hd changes\<bar>)\<rparr>))"

text \<open>
  \<open>_fetch_risk_free_rate\<close>: the price of \<open>^TNX\<close> or, when that is absent or zero, its
  previous close; when neither is a non-zero number the \<open>ValueError\<close> raised inside the
  \<open>try\<close> is caught there and the rate is 4 percent.
\<close>

definition mf_fetch_risk_free_rate :: "(string \<Rightarrow> stock) \<Rightarrow> MertonDataFetcher \<Rightarrow> MertonDataFetcher" where
  "mf_fetch_risk_free_rate yf self =
     (let info = st_info (yf ''^TNX'');
          rate = (case info_regularMarketPrice info of
                    None \<Rightarrow> info_previousClose info
                  | Some p \<Rightarrow> if p \<noteq> 0 then Some p else info_previousClose info)
      in case rate of
           None \<Rightarrow> self\<lparr>mf_risk_free_rate := 0.04\<rparr>
         | Some r \<Rightarrow>
             if r \<noteq> 0 then self\<lparr>mf_risk_free_rate := r / 100\<rparr>
             else self\<lparr>mf_risk_free_rate := 0.04\<rparr>)"

definition MertonDataFetcher_fetch_all ::
    "(string \<Rightarrow> stock) \<Rightarrow> MertonDataFetcher \<Rightarrow> exception + (merton_data \<times> MertonDataFetcher)" where
  "MertonDataFetcher_fetch_all yf self =
     (let stk = yf (mf_ticker self)
      in bind_exc (mf_fetch_historical_balance (mf_fetch_company_info self stk) stk) (\<lambda>s1.
         bind_exc (mf_calculate_mu_and_sigma s1) (\<lambda>s2.
           (let s3 = mf_fetch_risk_free_rate yf s2;
                data = [(''V_A'', Some (mf_V_A s3)), (''D'', Some (mf_D s3)),
                        (''mu'', Some (mf_mu s3)), (''sigma'', Some (mf_sigma s3)),
                        (''risk_free_rate'', Some (mf_risk_free_rate s3)),
                        (''T'', Some (mf_T s3))]
            in bind_exc (validate_data (mf_ticker s3) data (map fst data)) (\<lambda>_.
                 Inr (\<lparr>m_V_A = mf_V_A s3, m_D = mf_D s3, m_mu = mf_mu s3,
                       m_sigma = mf_sigma s3, m_risk_free_rate = mf_risk_free_rate s3,
                       m_T = mf_T s3\<rparr>, s3))))))"

section \<open>risk\_analyzer.py: the orchestrator\<close>

record RiskAnalyzer =
  ra_ticker :: string

definition RiskAnalyzer_init :: "string \<Rightarrow> RiskAnalyzer" where
  "RiskAnalyzer_init ticker = \<lparr>ra_ticker = strip (upper ticker)\<rparr>"

record zscore_section =
  zs_model_version :: string
  zs_ratios :: zscore_result
  zs_decision :: zone_decision

record merton_section =
  ms_applicable :: bool
  ms_results :: "merton_result option"
  ms_decision :: "zone_decision option"

record analysis =
  a_ticker :: string
  a_company_name :: string
  a_industry :: string
  a_company_type :: string
  a_zscore :: zscore_section
  a_merton :: merton_section
  a_final_decision :: final_decision

text \<open>
  Steps 4 and 5 of \<open>run\<close>, taken when Merton is applicable: fetch, calculate, decide. The
  decision is made on the rounded PD and DD of the result dictionary.
\<close>

definition run_merton ::
    "(real \<Rightarrow> real) \<Rightarrow> (string \<Rightarrow> stock) \<Rightarrow> string \<Rightarrow> exception + (merton_result \<times> zone_decision)" where
  "run_merton erf yf ticker =
     bind_exc (MertonDataFetcher_fetch_all yf (MertonDataFetcher_init ticker)) (\<lambda>(m_data, m_fetcher).
     bind_exc (MertonCalculator_calculate erf m_data) (\<lambda>merton_results.
       Inr (merton_results,
            MertonDecision_evaluate
              (MertonDecision_init (mr_PD merton_results) (mr_DD merton_results)))))"

definition run :: "(real \<Rightarrow> real) \<Rightarrow> (string \<Rightarrow> stock) \<Rightarrow> RiskAnalyzer \<Rightarrow> exception + analysis" where
  "run erf yf self =
     bind_exc (ZScoreDataFetcher_fetch_all yf (ZScoreDataFetcher_init (ra_ticker self)))
       (\<lambda>(z_data, z_fetcher).
     (let classifier0 = CompanyClassifier_init (Some (zf_industry z_fetcher))
                          (total_liabilities z_data);
          (company_type, classifier) = CompanyClassifier_classify classifier0;
          model_version = get_model_version classifier
      in bind_exc (ZScoreCalculator_init z_data model_version) (\<lambda>z_calc.
         bind_exc (ZScoreCalculator_calculate z_calc) (\<lambda>z_results.
           (let z_dec = ZScoreDecision_evaluate
                          (ZScoreDecision_init (zr_z_score z_results) model_version);
                merton_applicable = get_merton_applicability classifier
            in bind_exc
                 (if merton_applicable then
                    bind_exc (run_merton erf yf (ra_ticker self)) (\<lambda>(r, d). Inr (Some r, Some d))
                  else Inr (None, None))
                 (\<lambda>(merton_results, merton_dec).
                    Inr \<lparr>a_ticker = ra_ticker self,
                         a_company_name = zf_company_name z_fetcher,
                         a_industry = zf_industry z_fetcher,
                         a_company_type = company_type,
                         a_zscore = \<lparr>zs_model_version = model_version, zs_ratios = z_results,
                                     zs_decision = z_dec\<rparr>,
                         a_merton = \<lparr>ms_applicable = merton_applicable,
                                     ms_results = merton_results, ms_decision = merton_dec\<rparr>,
                         a_final_decision = combine_decisions z_dec merton_dec\<rparr>))))))"

text \<open>
  \<open>analyze_multiple\<close>. An entry of the returned list is the result dictionary of \<open>run\<close>
  or, when \<open>run\<close> raised, the dictionary of the ticker as given and \<open>str(e)\<close>.
  \<open>analyze_one\<close> is the body of the loop, the \<open>try\<close> with its \<open>except Exception\<close>;
  \<open>analyze_loop\<close> is the loop, appending to \<open>all_results\<close>.
\<close>

datatype batch_entry = Analysis analysis | ErrorRecord string string

definition analyze_one :: "(real \<Rightarrow> real) \<Rightarrow> (string \<Rightarrow> stock) \<Rightarrow> string \<Rightarrow> batch_entry" where
  "analyze_one erf yf ticker =
     (case run erf yf (RiskAnalyzer_init ticker) of
        Inr r \<Rightarrow> Analysis r
      | Inl e \<Rightarrow> ErrorRecord ticker (str_exception e))"

fun analyze_loop ::
    "(real \<Rightarrow> real) \<Rightarrow> (string \<Rightarrow> stock) \<Rightarrow> string list \<Rightarrow> batch_entry list \<Rightarrow> batch_entry list" where
  "analyze_loop erf yf [] all_results = all_results"
| "analyze_loop erf yf (ticker # tickers) all_results =
     analyze_loop erf yf tickers (all_results @ [analyze_one erf yf ticker])"

definition analyze_multiple :: "(real \<Rightarrow> real) \<Rightarrow> (string \<Rightarrow> stock) \<Rightarrow> string list \<Rightarrow> batch_entry list" where
  "analyze_multiple erf yf tickers = analyze_loop erf yf tickers []"

section \<open>Data for the examples\<close>

text \<open>
  A small provider for the concrete runs below: one statement column per company, with a
  choice of balance-sheet rows and of the liabilities figure. \<open>BBB\<close> has no balance sheet,
  \<open>DDD\<close> a balance sheet of two rows only, every other symbol the full example statement
  with negative liabilities.
\<close>

definition example_statement :: "real \<Rightarrow> string \<Rightarrow> real" where
  "example_statement liab label =
     (if label = ''Total Assets'' then 100
      else if label = ''Total Liabilities Net Minority Interest'' then liab
      else if label = ''Current Assets'' then 70
      else if label = ''Current Liabilities'' then 20
      else if label = ''EBIT'' then 10
      else if label = ''Total Revenue'' then 150
      else 0)"

definition example_stock :: "string list \<Rightarrow> real \<Rightarrow> stock" where
  "example_stock labels liab =
     \<lparr>st_info = \<lparr>info_longName = Some ''Alpha Steel'', info_industry = Some ''Steel'',
                  info_marketCap = Some 200, info_sic = None,
                  info_regularMarketPrice = None, info_previousClose = None\<rparr>,
      st_balance_sheet =
        Some \<lparr>df_index = labels, df_columns = [(2023, example_statement liab)]\<rparr>,
      st_income_stmt =
        Some \<lparr>df_index = [''EBIT'', ''Total Revenue''],
              df_columns = [(2023, example_statement liab)]\<rparr>\<rparr>"

definition example_labels :: "string list" where
  "example_labels =
     [''Total Assets'', ''Total Liabilities Net Minority Interest'',
      ''Current Assets'', ''Current Liabilities'']"

definition example_market :: "string \<Rightarrow> stock" where
  "example_market ticker =
     (if ticker = ''BBB'' then (example_stock example_labels (- 80))\<lparr>st_balance_sheet := None\<rparr>
      else if ticker = ''CCC'' then example_stock example_labels (- 40)
      else if ticker = ''DDD'' then
        example_stock [''Total Assets'', ''Total Liabilities Net Minority Interest''] 60
      else example_stock example_labels (- 80))"


section \<open>Properties\<close>

subsection \<open>The reconciler\<close>

text \<open>
  C1. When the Merton decision is absent the final decision is the Z-Score decision
  unchanged. Otherwise the final decision is DENIED if either decision is DENIED,
  APPROVED if both are APPROVED, and APPROVED WITH WARNING in every other case. This
  holds for every pair of decision strings, not only the three the engines produce.
\<close>

theorem combine_decisions_rule:
  "fd_decision (combine_decisions z_dec None) = zd_decision z_dec \<and>
   fd_decision (combine_decisions z_dec (Some m_dec)) =
     (if zd_decision z_dec = DENIED \<or> zd_decision m_dec = DENIED then DENIED
      else if zd_decision z_dec = APPROVED \<and> zd_decision m_dec = APPROVED then APPROVED
      else APPROVED_WARNING)"
  by (auto simp: combine_decisions_def Let_def DENIED_def APPROVED_def APPROVED_WARNING_def)

subsection \<open>Degenerate inputs\<close>

lemma zscore_raises_iff:
  "isl (ZScoreCalculator_calculate c) \<longleftrightarrow>
     total_assets (zc_data c) = 0 \<or> total_liabilities (zc_data c) = 0"
  by (simp add: ZScoreCalculator_calculate_def Let_def)

lemma merton_checks_passed:
  assumes "0 < m_D m" and "0 < m_V_A m" and "0 < m_sigma m"
  shows "MertonCalculator_calculate erf m \<noteq> Inl (ValueError ''D (pasivos) debe ser mayor que 0.'')"
    and "MertonCalculator_calculate erf m \<noteq> Inl (ValueError ''V_A (activos) debe ser mayor que 0.'')"
    and "MertonCalculator_calculate erf m \<noteq>
           Inl (ValueError ([CHR 0xCF, CHR 0x83] @ '' debe ser mayor que 0.''))"
  using assms
  by (simp_all add: MertonCalculator_calculate_def Let_def bind_exc_def math_log_def
      math_sqrt_def truediv_def)

text \<open>
  C3, amended. The Z-Score computation raises if and only if total assets or total
  liabilities is zero, with a \<open>ZeroDivisionError\<close> that names the zero denominator, before
  any ratio is computed. The Merton computation raises one of its three precondition
  errors if and only if D \<open>\<le>\<close> 0, V_A \<open>\<le>\<close> 0 or sigma \<open>\<le>\<close> 0: the conditions are checked
  before any computation, in this order, and the \<open>ValueError\<close> names the first one that is
  violated. In each of these cases the result is the exception and no number. The three
  preconditions are not all that can go wrong: with all of them met the arithmetic after
  the checks can still raise, with an error that names no condition.
\<close>

theorem degenerate_input_errors:
  "(isl (ZScoreCalculator_calculate c) \<longleftrightarrow>
      total_assets (zc_data c) = 0 \<or> total_liabilities (zc_data c) = 0) \<and>
   (total_assets (zc_data c) = 0 \<longrightarrow>
      ZScoreCalculator_calculate c = Inl (ZeroDivisionError ''Total Assets es 0.'')) \<and>
   (total_assets (zc_data c) \<noteq> 0 \<and> total_liabilities (zc_data c) = 0 \<longrightarrow>
      ZScoreCalculator_calculate c = Inl (ZeroDivisionError ''Total Liabilities es 0.'')) \<and>
   (MertonCalculator_calculate erf m \<in>
      {Inl (ValueError ''D (pasivos) debe ser mayor que 0.''),
       Inl (ValueError ''V_A (activos) debe ser mayor que 0.''),
       Inl (ValueError ([CHR 0xCF, CHR 0x83] @ '' debe ser mayor que 0.''))} \<longleftrightarrow>
      m_D m \<le> 0 \<or> m_V_A m \<le> 0 \<or> m_sigma m \<le> 0) \<and>
   (m_D m \<le> 0 \<longrightarrow>
      MertonCalculator_calculate erf m = Inl (ValueError ''D (pasivos) debe ser mayor que 0.'')) \<and>
   (0 < m_D m \<and> m_V_A m \<le> 0 \<longrightarrow>
      MertonCalculator_calculate erf m = Inl (ValueError ''V_A (activos) debe ser mayor que 0.'')) \<and>
   (0 < m_D m \<and> 0 < m_V_A m \<and> m_sigma m \<le> 0 \<longrightarrow>
      MertonCalculator_calculate erf m =
        Inl (ValueError ([CHR 0xCF, CHR 0x83] @ '' debe ser mayor que 0.'')))"
proof -
  have z: "isl (ZScoreCalculator_calculate c) \<longleftrightarrow>
      total_assets (zc_data c) = 0 \<or> total_liabilities (zc_data c) = 0"
    by (rule zscore_raises_iff)
  have z1: "total_assets (zc_data c) = 0 \<longrightarrow>
      ZScoreCalculator_calculate c = Inl (ZeroDivisionError ''Total Assets es 0.'')"
    by (simp add: ZScoreCalculator_calculate_def)
  have z2: "total_assets (zc_data c) \<noteq> 0 \<and> total_liabilities (zc_data c) = 0 \<longrightarrow>
      ZScoreCalculator_calculate c = Inl (ZeroDivisionError ''Total Liabilities es 0.'')"
    by (simp add: ZScoreCalculator_calculate_def)
  have m1: "m_D m \<le> 0 \<longrightarrow>
      MertonCalculator_calculate erf m = Inl (ValueError ''D (pasivos) debe ser mayor que 0.'')"
    by (simp add: MertonCalculator_calculate_def)
  have m2: "0 < m_D m \<and> m_V_A m \<le> 0 \<longrightarrow>
      MertonCalculator_calculate erf m = Inl (ValueError ''V_A (activos) debe ser mayor que 0.'')"
    by (simp add: MertonCalculator_calculate_def)
  have m3: "0 < m_D m \<and> 0 < m_V_A m \<and> m_sigma m \<le> 0 \<longrightarrow>
      MertonCalculator_calculate erf m =
        Inl (ValueError ([CHR 0xCF, CHR 0x83] @ '' debe ser mayor que 0.''))"
    by (simp add: MertonCalculator_calculate_def)
  have m0: "MertonCalculator_calculate erf m \<in>
      {Inl (ValueError ''D (pasivos) debe ser mayor que 0.''),
       Inl (ValueError ''V_A (activos) debe ser mayor que 0.''),
       Inl (ValueError ([CHR 0xCF, CHR 0x83] @ '' debe ser mayor que 0.''))} \<longleftrightarrow>
      m_D m \<le> 0 \<or> m_V_A m \<le> 0 \<or> m_sigma m \<le> 0"
  proof (cases "0 < m_D m \<and> 0 < m_V_A m \<and> 0 < m_sigma m")
    case True
    then have none: "\<not> (m_D m \<le> 0 \<or> m_V_A m \<le> 0 \<or> m_sigma m \<le> 0)" by auto
    from True merton_checks_passed [of m erf] show ?thesis
      unfolding insert_iff empty_iff using none by blast
  next
    case False
    then have some: "m_D m \<le> 0 \<or> m_V_A m \<le> 0 \<or> m_sigma m \<le> 0" by auto
    with m1 m2 m3 show ?thesis
      unfolding insert_iff empty_iff by (metis not_le)
  qed
  from z z1 z2 m0 m1 m2 m3 show ?thesis by blast
qed

text \<open>
  In the concrete runs \<^const>\<open>tanh\<close> is passed for \<open>erf\<close>: like the error function it is
  odd, with values in [-1, 1]. Where an exception is raised \<open>erf\<close> is never reached.
\<close>

theorem degenerate_input_errors_witness:
  "ZScoreCalculator_calculate
     \<lparr>zc_data = \<lparr>working_capital = 1, total_assets = 0, retained_earnings = 1, ebit = 1,
                 market_cap = 1, total_liabilities = 5, sales = 1\<rparr>,
      zc_model_version = ''Z'',
      zc_coefficients = \<lparr>c_x1 = 1.2, c_x2 = 1.4, c_x3 = 3.3, c_x4 = 0.6, c_x5 = 1.0\<rparr>\<rparr> =
     Inl (ZeroDivisionError ''Total Assets es 0.'') \<and>
   MertonCalculator_calculate tanh
     \<lparr>m_V_A = 100, m_D = 0, m_mu = 0, m_sigma = 1, m_risk_free_rate = 0, m_T = 1\<rparr> =
     Inl (ValueError ''D (pasivos) debe ser mayor que 0.'')"
  using degenerate_input_errors
    [of "\<lparr>zc_data = \<lparr>working_capital = 1, total_assets = 0, retained_earnings = 1, ebit = 1,
                 market_cap = 1, total_liabilities = 5, sales = 1\<rparr>,
      zc_model_version = ''Z'',
      zc_coefficients = \<lparr>c_x1 = 1.2, c_x2 = 1.4, c_x3 = 3.3, c_x4 = 0.6, c_x5 = 1.0\<rparr>\<rparr>"
      tanh "\<lparr>m_V_A = 100, m_D = 0, m_mu = 0, m_sigma = 1, m_risk_free_rate = 0, m_T = 1\<rparr>"]
  by simp

text \<open>
  The claim as stated (an error if and only if D, V_A or sigma is not positive) fails at
  V_A = 100, D = 50, sigma = 1, T = 0: none of the three conditions is violated, the square
  root of the horizon is 0, and the quotient raises a division by zero. (In doubles the
  square root of 0.0 and its product with 1.0 are exactly 0.0, so the code raises here as
  well.)
\<close>

theorem merton_raises_without_violation:
  "MertonCalculator_calculate tanh
     \<lparr>m_V_A = 100, m_D = 50, m_mu = 0, m_sigma = 1, m_risk_free_rate = 0, m_T = 0\<rparr> =
     Inl (ZeroDivisionError ''float division by zero'') \<and>
   \<not> ((50::real) \<le> 0 \<or> (100::real) \<le> 0 \<or> (1::real) \<le> 0)"
  by (simp add: MertonCalculator_calculate_def Let_def bind_exc_def math_log_def math_sqrt_def
      truediv_def)

subsection \<open>Zones and decisions\<close>

lemma thresholds_Z: "ZScoreDecision_thresholds (ZScoreDecision_init s ''Z'') = \<lparr>safe = 2.99, distress = 1.81\<rparr>"
  by (simp add: ZScoreDecision_thresholds_def ZScoreDecision_init_def THRESHOLDS_def)

lemma thresholds_not_Z:
  "mv \<noteq> ''Z'' \<Longrightarrow>
   ZScoreDecision_thresholds (ZScoreDecision_init s mv) = \<lparr>safe = 2.60, distress = 1.10\<rparr>"
  by (simp add: ZScoreDecision_thresholds_def ZScoreDecision_init_def THRESHOLDS_def)

lemma zone_names_distinct:
  "ZONE_SAFE \<noteq> ZONE_GREY" "ZONE_SAFE \<noteq> ZONE_DISTRESS" "ZONE_GREY \<noteq> ZONE_DISTRESS"
  "ZONE_GREY \<noteq> ZONE_SAFE" "ZONE_DISTRESS \<noteq> ZONE_SAFE" "ZONE_DISTRESS \<noteq> ZONE_GREY"
  by (simp_all add: ZONE_SAFE_def ZONE_GREY_def ZONE_DISTRESS_def)

lemma zscore_zones_Z:
  "(zd_zone (ZScoreDecision_evaluate (ZScoreDecision_init s ''Z'')) = ZONE_SAFE \<longleftrightarrow> s > 2.99) \<and>
   (zd_zone (ZScoreDecision_evaluate (ZScoreDecision_init s ''Z'')) = ZONE_DISTRESS \<longleftrightarrow> s < 1.81) \<and>
   (zd_zone (ZScoreDecision_evaluate (ZScoreDecision_init s ''Z'')) = ZONE_GREY \<longleftrightarrow>
      1.81 \<le> s \<and> s \<le> 2.99)"
  unfolding ZScoreDecision_evaluate_def thresholds_Z Let_def
  by (auto simp: zone_names_distinct ZScoreDecision_init_def)

lemma zscore_zones_Zdp:
  "(zd_zone (ZScoreDecision_evaluate (ZScoreDecision_init s ''Z_double_prime'')) = ZONE_SAFE
      \<longleftrightarrow> s > 2.60) \<and>
   (zd_zone (ZScoreDecision_evaluate (ZScoreDecision_init s ''Z_double_prime'')) = ZONE_DISTRESS
      \<longleftrightarrow> s < 1.10) \<and>
   (zd_zone (ZScoreDecision_evaluate (ZScoreDecision_init s ''Z_double_prime'')) = ZONE_GREY
      \<longleftrightarrow> 1.10 \<le> s \<and> s \<le> 2.60)"
proof -
  have t: "ZScoreDecision_thresholds (ZScoreDecision_init s ''Z_double_prime'') =
      \<lparr>safe = 2.60, distress = 1.10\<rparr>"
    by (rule thresholds_not_Z) simp
  show ?thesis
    unfolding ZScoreDecision_evaluate_def t Let_def
    by (auto simp: zone_names_distinct ZScoreDecision_init_def)
qed

lemma merton_zones:
  "(zd_zone (MertonDecision_evaluate (MertonDecision_init pd dd)) = ZONE_SAFE \<longleftrightarrow> pd < 0.02) \<and>
   (zd_zone (MertonDecision_evaluate (MertonDecision_init pd dd)) = ZONE_DISTRESS \<longleftrightarrow> pd > 0.05) \<and>
   (zd_zone (MertonDecision_evaluate (MertonDecision_init pd dd)) = ZONE_GREY \<longleftrightarrow>
      0.02 \<le> pd \<and> pd \<le> 0.05)"
  unfolding MertonDecision_evaluate_def MertonDecision_init_def PD_SAFE_def PD_DISTRESS_def
  by (auto simp: zone_names_distinct)

lemma zscore_decision_of_zone:
  "zd_decision (ZScoreDecision_evaluate obj) = decision_of_zone (zd_zone (ZScoreDecision_evaluate obj))"
  unfolding ZScoreDecision_evaluate_def Let_def decision_of_zone_def
  by (simp add: zone_names_distinct)

lemma merton_decision_of_zone:
  "zd_decision (MertonDecision_evaluate obj) = decision_of_zone (zd_zone (MertonDecision_evaluate obj))"
  unfolding MertonDecision_evaluate_def decision_of_zone_def
  by (simp add: zone_names_distinct)

text \<open>
  C5. The Z-Score decision puts a score in zone SAFE iff it is above 2.99 (variant \<open>Z\<close>)
  or above 2.60 (variant \<open>Z_double_prime\<close>), in DISTRESS iff it is below 1.81 or below
  1.10, and in GREY ZONE otherwise; a score of exactly 2.99 under \<open>Z\<close> is in GREY ZONE.
  The Merton decision puts a PD in SAFE iff PD < 0.02, in DISTRESS iff PD > 0.05 and in
  GREY ZONE otherwise. In both engines the decision is a function of the zone: SAFE gives
  APPROVED, GREY ZONE gives APPROVED WITH WARNING, DISTRESS gives DENIED.
\<close>

theorem zone_thresholds:
  "(zd_zone (ZScoreDecision_evaluate (ZScoreDecision_init s ''Z'')) = ZONE_SAFE \<longleftrightarrow> s > 2.99) \<and>
   (zd_zone (ZScoreDecision_evaluate (ZScoreDecision_init s ''Z'')) = ZONE_DISTRESS \<longleftrightarrow> s < 1.81) \<and>
   (zd_zone (ZScoreDecision_evaluate (ZScoreDecision_init s ''Z'')) = ZONE_GREY \<longleftrightarrow>
      1.81 \<le> s \<and> s \<le> 2.99) \<and>
   (zd_zone (ZScoreDecision_evaluate (ZScoreDecision_init s ''Z_double_prime'')) = ZONE_SAFE
      \<longleftrightarrow> s > 2.60) \<and>
   (zd_zone (ZScoreDecision_evaluate (ZScoreDecision_init s ''Z_double_prime'')) = ZONE_DISTRESS
      \<longleftrightarrow> s < 1.10) \<and>
   (zd_zone (ZScoreDecision_evaluate (ZScoreDecision_init s ''Z_double_prime'')) = ZONE_GREY
      \<longleftrightarrow> 1.10 \<le> s \<and> s \<le> 2.60) \<and>
   zd_zone (ZScoreDecision_evaluate (ZScoreDecision_init 2.99 ''Z'')) = ZONE_GREY \<and>
   (zd_zone (MertonDecision_evaluate (MertonDecision_init pd dd)) = ZONE_SAFE \<longleftrightarrow> pd < 0.02) \<and>
   (zd_zone (MertonDecision_evaluate (MertonDecision_init pd dd)) = ZONE_DISTRESS \<longleftrightarrow> pd > 0.05) \<and>
   (zd_zone (MertonDecision_evaluate (MertonDecision_init pd dd)) = ZONE_GREY \<longleftrightarrow>
      0.02 \<le> pd \<and> pd \<le> 0.05) \<and>
   zd_decision (ZScoreDecision_evaluate zobj) =
     decision_of_zone (zd_zone (ZScoreDecision_evaluate zobj)) \<and>
   zd_decision (MertonDecision_evaluate mobj) =
     decision_of_zone (zd_zone (MertonDecision_evaluate mobj)) \<and>
   decision_of_zone ZONE_SAFE = APPROVED \<and>
   decision_of_zone ZONE_GREY = APPROVED_WARNING \<and>
   decision_of_zone ZONE_DISTRESS = DENIED"
proof -
  have b: "zd_zone (ZScoreDecision_evaluate (ZScoreDecision_init 2.99 ''Z'')) = ZONE_GREY"
    using zscore_zones_Z [of "2.99"] by simp
  have d: "decision_of_zone ZONE_SAFE = APPROVED \<and>
     decision_of_zone ZONE_GREY = APPROVED_WARNING \<and>
     decision_of_zone ZONE_DISTRESS = DENIED"
    by (simp add: decision_of_zone_def zone_names_distinct)
  from zscore_zones_Z [of s] zscore_zones_Zdp [of s] b merton_zones [of pd dd]
    zscore_decision_of_zone [of zobj] merton_decision_of_zone [of mobj] d
  show ?thesis by blast
qed

subsection \<open>Unknown model variants\<close>

lemma COEFFICIENTS_other:
  "mv \<noteq> ''Z'' \<Longrightarrow> mv \<noteq> ''Z_double_prime'' \<Longrightarrow> COEFFICIENTS mv = None"
  by (simp add: COEFFICIENTS_def)

text \<open>
  C7, amended. A variant string other than \<open>Z\<close> and \<open>Z_double_prime\<close> is rejected by
  the constructor of the Z-Score calculator with a \<open>ValueError\<close>, so that no computation
  follows. The Z-Score decision stage rejects nothing: its constructor stores any string,
  and \<open>evaluate\<close> decides such a variant with the thresholds of \<open>Z_double_prime\<close>.
\<close>

theorem unknown_variant:
  assumes "mv \<noteq> ''Z''" and "mv \<noteq> ''Z_double_prime''"
  shows "ZScoreCalculator_init d mv =
           Inl (ValueError (''Versi'' @ [CHR 0xC3, CHR 0xB3] @ ''n inv'' @ [CHR 0xC3, CHR 0xA1] @
                  ''lida: '' @ [CHR 0x27] @ mv @ [CHR 0x27] @ ''.'')) \<and>
         bind_exc (ZScoreCalculator_init d mv) ZScoreCalculator_calculate =
           Inl (ValueError (''Versi'' @ [CHR 0xC3, CHR 0xB3] @ ''n inv'' @ [CHR 0xC3, CHR 0xA1] @
                  ''lida: '' @ [CHR 0x27] @ mv @ [CHR 0x27] @ ''.'')) \<and>
         ZScoreDecision_evaluate (ZScoreDecision_init s mv) =
           ZScoreDecision_evaluate (ZScoreDecision_init s ''Z_double_prime'')"
proof -
  have c: "ZScoreCalculator_init d mv =
           Inl (ValueError (''Versi'' @ [CHR 0xC3, CHR 0xB3] @ ''n inv'' @ [CHR 0xC3, CHR 0xA1] @
                  ''lida: '' @ [CHR 0x27] @ mv @ [CHR 0x27] @ ''.''))"
    using assms by (simp add: ZScoreCalculator_init_def COEFFICIENTS_other)
  have t: "ZScoreDecision_thresholds (ZScoreDecision_init s mv) =
           ZScoreDecision_thresholds (ZScoreDecision_init s ''Z_double_prime'')"
    using assms(1) by (simp add: thresholds_not_Z)
  have e: "ZScoreDecision_evaluate (ZScoreDecision_init s mv) =
           ZScoreDecision_evaluate (ZScoreDecision_init s ''Z_double_prime'')"
    using t by (simp add: ZScoreDecision_evaluate_def Let_def ZScoreDecision_init_def)
  from c e show ?thesis by (simp add: bind_exc_def)
qed

theorem unknown_variant_witness:
  "ZScoreCalculator_init
     \<lparr>working_capital = 50, total_assets = 100, retained_earnings = 20, ebit = 10,
      market_cap = 200, total_liabilities = 80, sales = 150\<rparr> ''Z_prime'' =
     Inl (ValueError (''Versi'' @ [CHR 0xC3, CHR 0xB3] @ ''n inv'' @ [CHR 0xC3, CHR 0xA1] @
            ''lida: '' @ [CHR 0x27] @ ''Z_prime'' @ [CHR 0x27] @ ''.'')) \<and>
   ZScoreDecision_evaluate (ZScoreDecision_init 2 ''Z_prime'') =
     ZScoreDecision_evaluate (ZScoreDecision_init 2 ''Z_double_prime'')"
  using unknown_variant [of "''Z_prime''"
     "\<lparr>working_capital = 50, total_assets = 100, retained_earnings = 20, ebit = 10,
      market_cap = 200, total_liabilities = 80, sales = 150\<rparr>" 2]
  by simp

text \<open>
  The claim as stated (the decision stage rejects an unknown variant too) fails at the
  variant \<open>Z_prime\<close> and the score 3: the decision stage returns SAFE and APPROVED.
\<close>

theorem decision_stage_accepts_unknown_variant:
  "ZScoreDecision_evaluate (ZScoreDecision_init 3 ''Z_prime'') =
     \<lparr>zd_zone = ''SAFE'', zd_decision = ''APPROVED''\<rparr> \<and>
   COEFFICIENTS ''Z_prime'' = None \<and> THRESHOLDS ''Z_prime'' = None"
  by (simp add: ZScoreDecision_evaluate_def ZScoreDecision_thresholds_def ZScoreDecision_init_def
      THRESHOLDS_def COEFFICIENTS_def ZONE_SAFE_def APPROVED_def)

subsection \<open>The classifier\<close>

lemma lower_example: "lower ''Auto Insurance'' = ''auto insurance''"
  by (simp add: lower_def lower_char_def ascii_uppercase_def ascii_lowercase_def Let_def)

lemma fin_example: "is_financial (CompanyClassifier_init (Some ''Auto Insurance'') 5)"
  by (simp add: is_financial_def CompanyClassifier_init_def lower_example FINANCIAL_KEYWORDS_def
      sublist_Cons_right)

lemma man_example: "is_manufacturing (CompanyClassifier_init (Some ''Auto Insurance'') 5)"
  by (simp add: is_manufacturing_def CompanyClassifier_init_def lower_example MANUFACTURING_KEYWORDS_def
      sublist_Cons_right)

text \<open>
  C6. The classifier lower-cases the industry string. It returns \<open>non_manufacturing\<close> with
  \<open>Z_double_prime\<close> when the string is empty, \<open>financial\<close> with \<open>Z_double_prime\<close> when
  the string contains a financial keyword, \<open>manufacturing\<close> with \<open>Z\<close> when it contains no
  financial keyword and a manufacturing one, and \<open>non_manufacturing\<close> with
  \<open>Z_double_prime\<close> otherwise. The financial test comes first: a string with keywords of
  both kinds, such as "auto insurance", is financial.
\<close>

theorem classify_rule:
  "cc_industry (CompanyClassifier_init industry liab) =
     lower (case industry of None \<Rightarrow> [] | Some i \<Rightarrow> i) \<and>
   (let s = lower (case industry of None \<Rightarrow> [] | Some i \<Rightarrow> i);
        fin = (\<exists>kw \<in> set FINANCIAL_KEYWORDS. sublist kw s);
        man = (\<exists>kw \<in> set MANUFACTURING_KEYWORDS. sublist kw s);
        r = CompanyClassifier_classify (CompanyClassifier_init industry liab)
    in (fst r, get_model_version (snd r)) =
         (if s = [] then (''non_manufacturing'', ''Z_double_prime'')
          else if fin then (''financial'', ''Z_double_prime'')
          else if man then (''manufacturing'', ''Z'')
          else (''non_manufacturing'', ''Z_double_prime'')) \<and>
       (fin \<and> man \<longrightarrow> fst r = ''financial'')) \<and>
   fst (CompanyClassifier_classify (CompanyClassifier_init (Some ''auto insurance'') liab)) =
     ''financial''"
proof -
  have ex: "fst (CompanyClassifier_classify (CompanyClassifier_init (Some ''auto insurance'') liab)) =
     ''financial''"
    by (simp add: CompanyClassifier_classify_def is_financial_def CompanyClassifier_init_def
        lower_def lower_char_def ascii_uppercase_def ascii_lowercase_def Let_def FINANCIAL_KEYWORDS_def sublist_Cons_right)
  have nonempty: "\<forall>kw \<in> set FINANCIAL_KEYWORDS. kw \<noteq> []"
    by (simp add: FINANCIAL_KEYWORDS_def)
  have gen: "let s = lower (case industry of None \<Rightarrow> [] | Some i \<Rightarrow> i);
        fin = (\<exists>kw \<in> set FINANCIAL_KEYWORDS. sublist kw s);
        man = (\<exists>kw \<in> set MANUFACTURING_KEYWORDS. sublist kw s);
        r = CompanyClassifier_classify (CompanyClassifier_init industry liab)
    in (fst r, get_model_version (snd r)) =
         (if s = [] then (''non_manufacturing'', ''Z_double_prime'')
          else if fin then (''financial'', ''Z_double_prime'')
          else if man then (''manufacturing'', ''Z'')
          else (''non_manufacturing'', ''Z_double_prime'')) \<and>
       (fin \<and> man \<longrightarrow> fst r = ''financial'')"
    using nonempty
    by (auto simp: CompanyClassifier_classify_def CompanyClassifier_init_def is_financial_def
        is_manufacturing_def get_model_version_def Let_def list_ex_iff)
  from ex gen show ?thesis by (simp add: CompanyClassifier_init_def)
qed

theorem classify_rule_witness:
  "fst (CompanyClassifier_classify (CompanyClassifier_init (Some ''Auto Insurance'') 5)) = ''financial'' \<and>
   get_model_version (snd (CompanyClassifier_classify (CompanyClassifier_init (Some ''Auto Insurance'') 5)))
     = ''Z_double_prime''"
proof -
  have fin: "\<exists>kw \<in> set FINANCIAL_KEYWORDS. sublist kw ''auto insurance''"
    using fin_example
    by (simp add: is_financial_def CompanyClassifier_init_def lower_example list_ex_iff)
  have man: "\<exists>kw \<in> set MANUFACTURING_KEYWORDS. sublist kw ''auto insurance''"
    using man_example
    by (simp add: is_manufacturing_def CompanyClassifier_init_def lower_example list_ex_iff)
  from classify_rule [of "Some ''Auto Insurance''" 5] fin man show ?thesis
    by (simp add: Let_def lower_example)
qed

subsection \<open>The example runs\<close>

lemmas example_defs = example_market_def example_stock_def example_labels_def
  example_statement_def

lemmas zf_eval = ZScoreDataFetcher_fetch_all_def ZScoreDataFetcher_init_def
  zf_fetch_company_info_def zf_fetch_balance_sheet_def zf_fetch_income_statement_def
  zf_fetch_market_data_def first_column_def get_label_def has_label_def bind_exc_def
  validate_data_def REQUIRED_FIELDS_def Let_def

lemma strip_upper_aaa: "strip (upper ''aaa '') = ''AAA''"
  by (simp add: strip_def upper_def upper_char_def ascii_lowercase_def ascii_uppercase_def is_space_def)

lemma strip_upper_AAA: "strip (upper ''AAA'') = ''AAA''"
  by (simp add: strip_def upper_def upper_char_def ascii_lowercase_def ascii_uppercase_def is_space_def)

lemma strip_upper_BBB: "strip (upper ''BBB'') = ''BBB''"
  by (simp add: strip_def upper_def upper_char_def ascii_lowercase_def ascii_uppercase_def is_space_def)

lemma strip_upper_CCC: "strip (upper ''CCC'') = ''CCC''"
  by (simp add: strip_def upper_def upper_char_def ascii_lowercase_def ascii_uppercase_def is_space_def)

lemma strip_upper_DDD: "strip (upper ''DDD'') = ''DDD''"
  by (simp add: strip_def upper_def upper_char_def ascii_lowercase_def ascii_uppercase_def is_space_def)

lemmas strip_upper_examples = strip_upper_aaa strip_upper_AAA strip_upper_BBB strip_upper_CCC
  strip_upper_DDD

lemma fetch_AAA:
  "ZScoreDataFetcher_fetch_all example_market (ZScoreDataFetcher_init ''AAA'') =
     Inr (\<lparr>working_capital = 50, total_assets = 100, retained_earnings = 0, ebit = 10,
           market_cap = 200, total_liabilities = - 80, sales = 150\<rparr>,
          \<lparr>zf_ticker = ''AAA'', zf_company_name = ''Alpha Steel'', zf_sic_code = - 1,
           zf_industry = ''Steel'', zf_working_capital = 50, zf_total_assets = Some 100,
           zf_retained_earnings = 0, zf_ebit = Some 10, zf_market_cap = Some 200,
           zf_total_liabilities = Some (- 80), zf_sales = Some 150\<rparr>)"
  by (simp add: zf_eval strip_upper_examples example_defs)

lemma fetch_BBB:
  "ZScoreDataFetcher_fetch_all example_market (ZScoreDataFetcher_init ''BBB'') =
     Inl (ValueError (''[BBB] No se encontr'' @ [CHR 0xC3, CHR 0xB3] @ '' balance sheet.''))"
  by (simp add: zf_eval strip_upper_examples example_defs)

lemma fetch_CCC:
  "ZScoreDataFetcher_fetch_all example_market (ZScoreDataFetcher_init ''CCC'') =
     Inr (\<lparr>working_capital = 50, total_assets = 100, retained_earnings = 0, ebit = 10,
           market_cap = 200, total_liabilities = - 40, sales = 150\<rparr>,
          \<lparr>zf_ticker = ''CCC'', zf_company_name = ''Alpha Steel'', zf_sic_code = - 1,
           zf_industry = ''Steel'', zf_working_capital = 50, zf_total_assets = Some 100,
           zf_retained_earnings = 0, zf_ebit = Some 10, zf_market_cap = Some 200,
           zf_total_liabilities = Some (- 40), zf_sales = Some 150\<rparr>)"
  by (simp add: zf_eval strip_upper_examples example_defs)


lemma classify_steel:
  "CompanyClassifier_classify (CompanyClassifier_init (Some ''Steel'') liab) =
     (''manufacturing'',
      \<lparr>cc_industry = ''steel'', cc_total_liabilities = liab,
       cc_company_type = ''manufacturing'', cc_model_version = ''Z''\<rparr>)"
  by (simp add: CompanyClassifier_classify_def CompanyClassifier_init_def is_financial_def
      is_manufacturing_def FINANCIAL_KEYWORDS_def MANUFACTURING_KEYWORDS_def lower_def
      lower_char_def ascii_lowercase_def ascii_uppercase_def sublist_Cons_right Let_def)

lemmas run_eval = run_def RiskAnalyzer_init_def bind_exc_def
  classify_steel get_model_version_def ZScoreCalculator_init_def COEFFICIENTS_def
  ZScoreCalculator_calculate_def Let_def py_round_def round_half_even_def
  ZScoreDecision_evaluate_def ZScoreDecision_init_def ZScoreDecision_thresholds_def
  THRESHOLDS_def get_merton_applicability_def combine_decisions_def
  ZONE_DISTRESS_def DENIED_def

lemma run_AAA:
  "run erf example_market (RiskAnalyzer_init ''aaa '') =
     Inr \<lparr>a_ticker = ''AAA'', a_company_name = ''Alpha Steel'', a_industry = ''Steel'',
          a_company_type = ''manufacturing'',
          a_zscore = \<lparr>zs_model_version = ''Z'',
                      zs_ratios = \<lparr>zr_model_version = ''Z'', zr_x1 = 0.5, zr_x2 = 0, zr_x3 = 0.1,
                                    zr_x4 = - 2.5, zr_x5 = 1.5, zr_z_score = 0.93\<rparr>,
                      zs_decision = \<lparr>zd_zone = ''DISTRESS'', zd_decision = ''DENIED''\<rparr>\<rparr>,
          a_merton = \<lparr>ms_applicable = False, ms_results = None, ms_decision = None\<rparr>,
          a_final_decision =
            \<lparr>fd_decision = ''DENIED'',
             fd_basis = ''Z-Score '' @ [CHR 0xC3, CHR 0xBA] @ ''nicamente (Merton no aplicable)''\<rparr>\<rparr>"
  by (simp add: run_eval strip_upper_examples fetch_AAA)

lemma run_BBB:
  "run erf example_market (RiskAnalyzer_init ''BBB'') =
     Inl (ValueError (''[BBB] No se encontr'' @ [CHR 0xC3, CHR 0xB3] @ '' balance sheet.''))"
  by (simp add: run_def RiskAnalyzer_init_def strip_upper_examples fetch_BBB bind_exc_def)

lemma run_CCC:
  "run erf example_market (RiskAnalyzer_init ''CCC'') =
     Inr \<lparr>a_ticker = ''CCC'', a_company_name = ''Alpha Steel'', a_industry = ''Steel'',
          a_company_type = ''manufacturing'',
          a_zscore = \<lparr>zs_model_version = ''Z'',
                      zs_ratios = \<lparr>zr_model_version = ''Z'', zr_x1 = 0.5, zr_x2 = 0, zr_x3 = 0.1,
                                    zr_x4 = - 5, zr_x5 = 1.5, zr_z_score = - 0.57\<rparr>,
                      zs_decision = \<lparr>zd_zone = ''DISTRESS'', zd_decision = ''DENIED''\<rparr>\<rparr>,
          a_merton = \<lparr>ms_applicable = False, ms_results = None, ms_decision = None\<rparr>,
          a_final_decision =
            \<lparr>fd_decision = ''DENIED'',
             fd_basis = ''Z-Score '' @ [CHR 0xC3, CHR 0xBA] @ ''nicamente (Merton no aplicable)''\<rparr>\<rparr>"
  by (simp add: run_eval strip_upper_examples fetch_CCC)

subsection \<open>The Z-Score fetcher\<close>













subsection \<open>Batch analysis\<close>

lemma analyze_loop_append:
  "analyze_loop erf yf tickers acc = acc @ map (analyze_one erf yf) tickers"
  by (induction tickers arbitrary: acc) simp_all

lemma analyze_multiple_map:
  "analyze_multiple erf yf tickers = map (analyze_one erf yf) tickers"
  by (simp add: analyze_multiple_def analyze_loop_append)

text \<open>
  C9. \<open>analyze_multiple\<close> returns one entry per ticker, in the order of the input: the
  entry at position \<open>i\<close> is the outcome of analysing ticker \<open>i\<close> alone. A ticker whose
  \<open>run\<close> raises gives the error record of the ticker and the message of the exception, any
  other ticker its analysis; the entries before and after a ticker are what they are
  without it, so the batch never stops early.
\<close>

theorem batch_isolation:
  "length (analyze_multiple erf yf tickers) = length tickers \<and>
   (\<forall>i < length tickers.
      analyze_multiple erf yf tickers ! i = analyze_one erf yf (tickers ! i)) \<and>
   (\<forall>e. run erf yf (RiskAnalyzer_init t) = Inl e \<longrightarrow>
      analyze_one erf yf t = ErrorRecord t (str_exception e)) \<and>
   (\<forall>r. run erf yf (RiskAnalyzer_init t) = Inr r \<longrightarrow> analyze_one erf yf t = Analysis r) \<and>
   analyze_multiple erf yf (before @ t # after) =
     analyze_multiple erf yf before @ analyze_one erf yf t # analyze_multiple erf yf after"
  by (simp add: analyze_multiple_map analyze_one_def)

theorem batch_isolation_witness:
  "length (analyze_multiple tanh example_market [''aaa '', ''BBB'', ''CCC'']) = 3 \<and>
   analyze_multiple tanh example_market [''aaa '', ''BBB'', ''CCC''] ! 0 =
     Analysis
       \<lparr>a_ticker = ''AAA'', a_company_name = ''Alpha Steel'', a_industry = ''Steel'',
        a_company_type = ''manufacturing'',
        a_zscore = \<lparr>zs_model_version = ''Z'',
                    zs_ratios = \<lparr>zr_model_version = ''Z'', zr_x1 = 0.5, zr_x2 = 0, zr_x3 = 0.1,
                                  zr_x4 = - 2.5, zr_x5 = 1.5, zr_z_score = 0.93\<rparr>,
                    zs_decision = \<lparr>zd_zone = ''DISTRESS'', zd_decision = ''DENIED''\<rparr>\<rparr>,
        a_merton = \<lparr>ms_applicable = False, ms_results = None, ms_decision = None\<rparr>,
        a_final_decision =
          \<lparr>fd_decision = ''DENIED'',
           fd_basis = ''Z-Score '' @ [CHR 0xC3, CHR 0xBA] @ ''nicamente (Merton no aplicable)''\<rparr>\<rparr> \<and>
   analyze_multiple tanh example_market [''aaa '', ''BBB'', ''CCC''] ! 1 =
     ErrorRecord ''BBB''
       (''[BBB] No se encontr'' @ [CHR 0xC3, CHR 0xB3] @ '' balance sheet.'') \<and>
   analyze_multiple tanh example_market [''aaa '', ''BBB'', ''CCC''] ! 2 =
     Analysis
       \<lparr>a_ticker = ''CCC'', a_company_name = ''Alpha Steel'', a_industry = ''Steel'',
        a_company_type = ''manufacturing'',
        a_zscore = \<lparr>zs_model_version = ''Z'',
                    zs_ratios = \<lparr>zr_model_version = ''Z'', zr_x1 = 0.5, zr_x2 = 0, zr_x3 = 0.1,
                                  zr_x4 = - 5, zr_x5 = 1.5, zr_z_score = - 0.57\<rparr>,
                    zs_decision = \<lparr>zd_zone = ''DISTRESS'', zd_decision = ''DENIED''\<rparr>\<rparr>,
        a_merton = \<lparr>ms_applicable = False, ms_results = None, ms_decision = None\<rparr>,
        a_final_decision =
          \<lparr>fd_decision = ''DENIED'',
           fd_basis = ''Z-Score '' @ [CHR 0xC3, CHR 0xBA] @ ''nicamente (Merton no aplicable)''\<rparr>\<rparr>"
proof -
  have all: "\<forall>i < 3. analyze_multiple tanh example_market [''aaa '', ''BBB'', ''CCC''] ! i =
      analyze_one tanh example_market ([''aaa '', ''BBB'', ''CCC''] ! i)"
    and len: "length (analyze_multiple tanh example_market [''aaa '', ''BBB'', ''CCC'']) = 3"
    using batch_isolation [of tanh example_market "[''aaa '', ''BBB'', ''CCC'']"] by simp_all
  from all have
    "analyze_multiple tanh example_market [''aaa '', ''BBB'', ''CCC''] ! 0 =
       analyze_one tanh example_market ''aaa ''"
    "analyze_multiple tanh example_market [''aaa '', ''BBB'', ''CCC''] ! 1 =
       analyze_one tanh example_market ''BBB''"
    "analyze_multiple tanh example_market [''aaa '', ''BBB'', ''CCC''] ! 2 =
       analyze_one tanh example_market ''CCC''"
    by simp_all
  with len show ?thesis
    by (simp add: analyze_one_def run_AAA run_BBB run_CCC)
qed

subsection \<open>When Merton is skipped\<close>

lemma classify_keeps_liabilities:
  "cc_total_liabilities (snd (CompanyClassifier_classify c)) = cc_total_liabilities c"
  by (simp add: CompanyClassifier_classify_def Let_def)

lemma init_keeps_data: "ZScoreCalculator_init d mv = Inr c \<Longrightarrow> zc_data c = d"
  by (auto simp: ZScoreCalculator_init_def split: option.splits)

lemma calculate_returns_nonzero:
  "ZScoreCalculator_calculate c = Inr z \<Longrightarrow> total_liabilities (zc_data c) \<noteq> 0"
  by (auto simp: ZScoreCalculator_calculate_def Let_def split: if_splits)

lemma basis_differs:
  "fd_basis (combine_decisions z (Some m)) \<noteq> fd_basis (combine_decisions z None)"
  by (simp add: combine_decisions_def Let_def)

lemma combine_differs: "combine_decisions z (Some m) \<noteq> combine_decisions z None"
  using basis_differs [of z m] by auto

lemma applicability_after_classify:
  "CompanyClassifier_classify (CompanyClassifier_init i l) = (ct, cl) \<Longrightarrow>
   get_merton_applicability cl = (0 < l)"
  using classify_keeps_liabilities [of "CompanyClassifier_init i l"]
  by (auto simp: get_merton_applicability_def CompanyClassifier_init_def)

lemma calculate_after_init_nonzero:
  "ZScoreCalculator_init d mv = Inr c \<Longrightarrow> ZScoreCalculator_calculate c = Inr z \<Longrightarrow>
   total_liabilities d \<noteq> 0"
  using init_keeps_data calculate_returns_nonzero by blast

lemma run_InrE:
  assumes "run erf yf self = Inr r"
  obtains zd zf ct cl zc zr mres mdec where
    "ZScoreDataFetcher_fetch_all yf (ZScoreDataFetcher_init (ra_ticker self)) = Inr (zd, zf)"
    "CompanyClassifier_classify
       (CompanyClassifier_init (Some (zf_industry zf)) (total_liabilities zd)) = (ct, cl)"
    "ZScoreCalculator_init zd (get_model_version cl) = Inr zc"
    "ZScoreCalculator_calculate zc = Inr zr"
    "get_merton_applicability cl \<Longrightarrow> \<exists>mr md. mres = Some mr \<and> mdec = Some md"
    "\<not> get_merton_applicability cl \<Longrightarrow> mres = None \<and> mdec = None"
    "r = \<lparr>a_ticker = ra_ticker self,
          a_company_name = zf_company_name zf,
          a_industry = zf_industry zf,
          a_company_type = ct,
          a_zscore = \<lparr>zs_model_version = get_model_version cl, zs_ratios = zr,
                      zs_decision = ZScoreDecision_evaluate
                        (ZScoreDecision_init (zr_z_score zr) (get_model_version cl))\<rparr>,
          a_merton = \<lparr>ms_applicable = get_merton_applicability cl,
                      ms_results = mres, ms_decision = mdec\<rparr>,
          a_final_decision = combine_decisions
            (ZScoreDecision_evaluate (ZScoreDecision_init (zr_z_score zr) (get_model_version cl)))
            mdec\<rparr>"
  using assms unfolding run_def bind_exc_def
  by (auto simp: Let_def split: sum.splits prod.splits if_splits)

text \<open>
  C10. In a run that completes, the Z-Score stage has accepted the total liabilities, so
  they are not zero, and Merton is applicable iff they are positive. Hence the Merton
  decision and result are absent, and the final decision is the one made from the Z-Score
  alone, only when the total liabilities are strictly negative (and then always).
\<close>

theorem merton_skipped_only_with_negative_liabilities:
  assumes "run erf yf self = Inr r"
  shows "\<exists>z_data z_fetcher.
           ZScoreDataFetcher_fetch_all yf (ZScoreDataFetcher_init (ra_ticker self)) =
             Inr (z_data, z_fetcher) \<and>
           total_liabilities z_data \<noteq> 0 \<and>
           (ms_applicable (a_merton r) \<longleftrightarrow> 0 < total_liabilities z_data) \<and>
           (ms_decision (a_merton r) = None \<longleftrightarrow> total_liabilities z_data < 0) \<and>
           (ms_results (a_merton r) = None \<longleftrightarrow> total_liabilities z_data < 0) \<and>
           (a_final_decision r = combine_decisions (zs_decision (a_zscore r)) None
              \<longleftrightarrow> total_liabilities z_data < 0)"
proof -
  from assms obtain zd zf ct cl zc zr mres mdec where
    f: "ZScoreDataFetcher_fetch_all yf (ZScoreDataFetcher_init (ra_ticker self)) = Inr (zd, zf)" and
    c: "CompanyClassifier_classify
       (CompanyClassifier_init (Some (zf_industry zf)) (total_liabilities zd)) = (ct, cl)" and
    i: "ZScoreCalculator_init zd (get_model_version cl) = Inr zc" and
    k: "ZScoreCalculator_calculate zc = Inr zr" and
    yes: "get_merton_applicability cl \<Longrightarrow> \<exists>mr md. mres = Some mr \<and> mdec = Some md" and
    no: "\<not> get_merton_applicability cl \<Longrightarrow> mres = None \<and> mdec = None" and
    r: "r = \<lparr>a_ticker = ra_ticker self,
          a_company_name = zf_company_name zf,
          a_industry = zf_industry zf,
          a_company_type = ct,
          a_zscore = \<lparr>zs_model_version = get_model_version cl, zs_ratios = zr,
                      zs_decision = ZScoreDecision_evaluate
                        (ZScoreDecision_init (zr_z_score zr) (get_model_version cl))\<rparr>,
          a_merton = \<lparr>ms_applicable = get_merton_applicability cl,
                      ms_results = mres, ms_decision = mdec\<rparr>,
          a_final_decision = combine_decisions
            (ZScoreDecision_evaluate (ZScoreDecision_init (zr_z_score zr) (get_model_version cl)))
            mdec\<rparr>"
    by (rule run_InrE) blast
  have nz: "total_liabilities zd \<noteq> 0"
    using i k by (rule calculate_after_init_nonzero)
  have app: "get_merton_applicability cl = (0 < total_liabilities zd)"
    using c by (rule applicability_after_classify)
  show ?thesis
  proof (cases "0 < total_liabilities zd")
    case True
    with app yes obtain mr md where "mres = Some mr" "mdec = Some md" by auto
    with True f nz app r show ?thesis
      by (auto simp: combine_differs)
  next
    case False
    with app no have "mres = None" "mdec = None" by auto
    with False f nz app r show ?thesis by auto
  qed
qed

theorem merton_skipped_only_with_negative_liabilities_witness:
  "\<exists>z_data z_fetcher.
     ZScoreDataFetcher_fetch_all example_market (ZScoreDataFetcher_init ''AAA'') =
       Inr (z_data, z_fetcher) \<and>
     total_liabilities z_data = - 80 \<and>
     (\<exists>r. run tanh example_market (RiskAnalyzer_init ''aaa '') = Inr r \<and>
          ms_decision (a_merton r) = None \<and>
          a_final_decision r = combine_decisions (zs_decision (a_zscore r)) None)"
  using merton_skipped_only_with_negative_liabilities [OF run_AAA [of tanh]]
  by (simp add: RiskAnalyzer_init_def strip_upper_examples fetch_AAA run_AAA [unfolded RiskAnalyzer_init_def strip_upper_examples])

end
